theory Spec2Isabelle
  imports Main "HOL-Library.Word"
begin

section \<open>The ConcentratorD backend of the gateway bridge\<close>

text \<open>
  A shallow embedding of \<^verbatim>\<open>internal/backend/concentratord/concentratord.go\<close>.
  Every function of the file is a definition of the same name below. What the Go code
  does beyond returning a value is explicit:
  \<^item> the objects a downlink frame points to live in a store (\<open>heap\<close>), because
    \<^verbatim>\<open>SendDownlinkFrame\<close> receives the frame struct by value and writes through a
    pointer the caller's copy shares;
  \<^item> a Go channel is the list of the values sent on it, in the order sent (what the
    receiver reads from it); a send on a full channel waits for the receiver and then
    delivers the same value, so the list does not depend on the capacity;
  \<^item> the two ZeroMQ sockets are the environment: what a socket call does is an argument
    of the function that makes the call, and the messages written to the command socket
    are recorded in the backend's state;
  \<^item> \<^verbatim>\<open>log.Fatal\<close> writes the entry and ends the process (\<^verbatim>\<open>os.Exit(1)\<close>), so a
    function has three outcomes: it returns, the process ends, or it waits forever (on a
    socket that never answers, or on the mutex held by a call that does);
  \<^item> calls are run one after the other, each to its outcome: the interleaving of two
    goroutines inside a call is not modelled;
  \<^item> \<^verbatim>\<open>proto.Marshal\<close> and \<^verbatim>\<open>proto.Unmarshal\<close> are parameters (\<open>codec\<close>).
\<close>

subsection \<open>Bytes, integers and errors\<close>

type_synonym bytes = "char list"
type_synonym uint32 = "32 word"
type_synonym addr = nat

text \<open>
  \<^verbatim>\<open>errors.New(msg)\<close> and \<^verbatim>\<open>errors.Wrap(err, msg)\<close>. An error of a library
  (a socket, the protobuf codec) is a \<open>New\<close> with that library's text.
\<close>

datatype error = New string | Wrap error string

text \<open>The built-in \<^verbatim>\<open>copy(dst, src)\<close>: the first \<open>min (len dst) (len src)\<close> elements
  of \<open>dst\<close> are overwritten, the rest of \<open>dst\<close> stays.\<close>

definition copy :: "'a list \<Rightarrow> 'a list \<Rightarrow> 'a list" where
  "copy dst src =
     take (min (length dst) (length src)) src @ drop (min (length dst) (length src)) dst"

text \<open>\<^verbatim>\<open>lorawan.EUI64\<close> is \<^verbatim>\<open>[8]byte\<close>; \<^verbatim>\<open>var gatewayID lorawan.EUI64\<close> is eight
  zero bytes.\<close>

type_synonym EUI64 = bytes

definition zero_EUI64 :: EUI64 where
  "zero_EUI64 = replicate 8 (CHR 0x00)"

subsection \<open>The messages of package gw\<close>

text \<open>
  The structs generated from \<^verbatim>\<open>gw.proto\<close> (chirpstack-api, v3), with the fields this
  backend reads or writes and a few of the others. \<^verbatim>\<open>Bandwidth\<close> is a \<^verbatim>\<open>uint32\<close>.
  A pointer is an \<open>option\<close>: \<open>None\<close> is \<^verbatim>\<open>nil\<close>. A oneof field is an interface
  holding a wrapper struct with one pointer.
\<close>

record LoRaModulationInfo =
  Bandwidth :: uint32
  SpreadingFactor :: uint32
  CodeRate :: string
  PolarizationInversion :: bool

record FSKModulationInfo =
  FrequencyDeviation :: uint32
  Datarate :: uint32

datatype CRCStatus = NO_CRC | BAD_CRC | CRC_OK

datatype isDownlinkTXInfo_ModulationInfo =
    DownlinkTXInfo_LoraModulationInfo "addr option"
  | DownlinkTXInfo_FskModulationInfo "FSKModulationInfo option"

record DownlinkTXInfo =
  dtx_GatewayId :: bytes
  dtx_Frequency :: uint32
  dtx_Power :: "32 word"
  dtx_ModulationInfo :: "isDownlinkTXInfo_ModulationInfo option"
  dtx_Context :: bytes

record DownlinkFrame =
  df_PhyPayload :: bytes
  df_TxInfo :: "addr option"
  df_Token :: uint32
  df_DownlinkId :: bytes

record DownlinkTXAck =
  ack_GatewayId :: bytes
  ack_Token :: uint32
  ack_Error :: string
  ack_DownlinkId :: bytes

datatype isUplinkTXInfo_ModulationInfo =
    UplinkTXInfo_LoraModulationInfo "LoRaModulationInfo option"
  | UplinkTXInfo_FskModulationInfo "FSKModulationInfo option"

record UplinkTXInfo =
  utx_Frequency :: uint32
  utx_ModulationInfo :: "isUplinkTXInfo_ModulationInfo option"

record UplinkRXInfo =
  urx_GatewayId :: bytes
  urx_Rssi :: "32 word"
  urx_UplinkId :: bytes
  urx_CrcStatus :: CRCStatus

record UplinkFrame =
  uf_PhyPayload :: bytes
  uf_TxInfo :: "UplinkTXInfo option"
  uf_RxInfo :: "UplinkRXInfo option"

record GatewayStats =
  gs_GatewayId :: bytes
  gs_StatsId :: bytes
  gs_RxPacketsReceived :: uint32

text \<open>\<^verbatim>\<open>events.Subscribe\<close> (package internal/backend/events).\<close>

record events_Subscribe =
  Subscribe :: bool
  GatewayID :: EUI64

subsection \<open>The store of the objects a downlink frame points to\<close>

text \<open>
  \<^verbatim>\<open>DownlinkFrame.TxInfo\<close> is a \<^verbatim>\<open>*DownlinkTXInfo\<close> and the LoRa wrapper holds a
  \<^verbatim>\<open>*LoRaModulationInfo\<close>. Every address holds an object (Go has no dangling
  pointer); two frames may point to the same object.
\<close>

record heap =
  txinfos :: "addr \<Rightarrow> DownlinkTXInfo"
  loras :: "addr \<Rightarrow> LoRaModulationInfo"

text \<open>The generated getters of a downlink frame: a \<^verbatim>\<open>nil\<close> receiver gives \<^verbatim>\<open>nil\<close>.\<close>

definition GetTxInfo :: "DownlinkFrame \<Rightarrow> addr option" where
  "GetTxInfo pl = df_TxInfo pl"

definition GetLoraModulationInfo :: "heap \<Rightarrow> addr option \<Rightarrow> addr option" where
  "GetLoraModulationInfo h t =
     (case t of
        None \<Rightarrow> None
      | Some ta \<Rightarrow>
          (case dtx_ModulationInfo (txinfos h ta) of
             Some (DownlinkTXInfo_LoraModulationInfo p) \<Rightarrow> p
           | _ \<Rightarrow> None))"

text \<open>The assignment \<^verbatim>\<open>p.Bandwidth = v\<close> through a \<^verbatim>\<open>*LoRaModulationInfo\<close>.\<close>

definition store_Bandwidth :: "addr \<Rightarrow> uint32 \<Rightarrow> heap \<Rightarrow> heap" where
  "store_Bandwidth a v h = h\<lparr>loras := (loras h)(a := (loras h a)\<lparr>Bandwidth := v\<rparr>)\<rparr>"

text \<open>The bandwidth written on the way down (line 124) and on the way up (line 253):
  \<^verbatim>\<open>uint32\<close> multiplication wraps around, \<^verbatim>\<open>uint32\<close> division truncates.\<close>

definition bandwidth_to_wire :: "uint32 \<Rightarrow> uint32" where
  "bandwidth_to_wire bw = bw * 1000"

definition bandwidth_from_wire :: "uint32 \<Rightarrow> uint32" where
  "bandwidth_from_wire bw = bw div 1000"

text \<open>The getters of an uplink frame. An uplink frame is decoded into a local variable,
  so its objects are reachable from nowhere else and the frame is a value.\<close>

definition GetCrcStatus :: "UplinkRXInfo option \<Rightarrow> CRCStatus" where
  "GetCrcStatus r = (case r of None \<Rightarrow> NO_CRC | Some rx \<Rightarrow> urx_CrcStatus rx)"

definition GetLoraModulationInfo_up :: "UplinkTXInfo option \<Rightarrow> LoRaModulationInfo option" where
  "GetLoraModulationInfo_up t =
     (case t of
        None \<Rightarrow> None
      | Some tx \<Rightarrow>
          (case utx_ModulationInfo tx of
             Some (UplinkTXInfo_LoraModulationInfo p) \<Rightarrow> p
           | _ \<Rightarrow> None))"

text \<open>The assignment \<^verbatim>\<open>loRaModInfo.Bandwidth = v\<close> on the LoRa object of an uplink
  frame that has one.\<close>

definition store_Bandwidth_up :: "uint32 \<Rightarrow> UplinkFrame \<Rightarrow> UplinkFrame" where
  "store_Bandwidth_up v pl =
     (case uf_TxInfo pl of
        None \<Rightarrow> pl
      | Some tx \<Rightarrow>
          (case utx_ModulationInfo tx of
             Some (UplinkTXInfo_LoraModulationInfo (Some l)) \<Rightarrow>
               pl\<lparr>uf_TxInfo := Some (tx\<lparr>utx_ModulationInfo :=
                  Some (UplinkTXInfo_LoraModulationInfo (Some (l\<lparr>Bandwidth := v\<rparr>)))\<rparr>)\<rparr>
           | _ \<Rightarrow> pl))"

subsection \<open>The codec, the sockets, the log and the backend\<close>

record codec =
  Marshal_DownlinkFrame :: "heap \<Rightarrow> DownlinkFrame \<Rightarrow> error + bytes"
  Unmarshal_DownlinkTXAck :: "bytes \<Rightarrow> error + DownlinkTXAck"
  Unmarshal_UplinkFrame :: "bytes \<Rightarrow> error + UplinkFrame"
  Unmarshal_GatewayStats :: "bytes \<Rightarrow> error + GatewayStats"

text \<open>What the command socket does during one \<^verbatim>\<open>commandRequest\<close>: \<^verbatim>\<open>SendMulti\<close>
  fails, or it succeeds and \<^verbatim>\<open>Recv\<close> fails, returns a reply (\<^verbatim>\<open>reply.Bytes()\<close>),
  or never returns (there is no timeout).\<close>

datatype exchange =
    SendMulti_error error
  | Recv_error error
  | Recv_reply bytes
  | Recv_never

datatype level = DebugLevel | InfoLevel | ErrorLevel | FatalLevel

datatype 'a outcome = Return 'a | Fatal | Hang

record Backend =
  eventSock_closed :: bool
  commandSock_sent :: "bytes list list"
  commandMux :: bool
  downlinkTXAckChan :: "DownlinkTXAck list"
  uplinkFrameChan :: "UplinkFrame list"
  gatewayStatsChan :: "GatewayStats list"
  subscribeEventChan :: "events_Subscribe list"
  crcCheck :: bool
  logged :: "(level \<times> string) list"

text \<open>A call of the logger: the entry's level and message (its fields are left out).\<close>

definition log :: "level \<Rightarrow> string \<Rightarrow> Backend \<Rightarrow> Backend" where
  "log lv msg b = b\<lparr>logged := logged b @ [(lv, msg)]\<rparr>"

subsection \<open>commandRequest and SendDownlinkFrame\<close>

text \<open>
  \<^verbatim>\<open>commandRequest(command, v)\<close>: \<open>v\<close> is \<^verbatim>\<open>nil\<close> (\<open>None\<close>) or a pointer to a
  downlink frame, which \<^verbatim>\<open>proto.Marshal\<close> reads in the store. \<open>commandMux\<close> says
  whether the mutex is held. \<^verbatim>\<open>Lock\<close> waits while it is; the deferred \<^verbatim>\<open>Unlock\<close>
  releases it at every return, so it stays held only by a call whose \<^verbatim>\<open>Recv\<close> never
  returns.
\<close>

definition commandRequest ::
  "codec \<Rightarrow> exchange \<Rightarrow> string \<Rightarrow> (heap \<times> DownlinkFrame) option \<Rightarrow> Backend
     \<Rightarrow> (error + bytes) outcome \<times> Backend" where
  "commandRequest c x command v b =
     (if commandMux b then (Hang, b)
      else
        case (case v of
                None \<Rightarrow> Inr []
              | Some (h, pl) \<Rightarrow>
                  (case Marshal_DownlinkFrame c h pl of
                     Inl err \<Rightarrow> Inl (Wrap err ''protobuf marshal error'')
                   | Inr bb \<Rightarrow> Inr bb)) of
          Inl err \<Rightarrow> (Return (Inl err), b)
        | Inr bb \<Rightarrow>
            (case x of
               SendMulti_error err \<Rightarrow>
                 (Return (Inl (Wrap err ''send command request error'')), b)
             | Recv_error err \<Rightarrow>
                 (Return (Inl (Wrap err ''receive command request reply error'')),
                  b\<lparr>commandSock_sent := commandSock_sent b @ [[command, bb]]\<rparr>)
             | Recv_reply reply \<Rightarrow>
                 (Return (Inr reply),
                  b\<lparr>commandSock_sent := commandSock_sent b @ [[command, bb]]\<rparr>)
             | Recv_never \<Rightarrow>
                 (Hang, b\<lparr>commandSock_sent := commandSock_sent b @ [[command, bb]],
                          commandMux := True\<rparr>)))"

text \<open>
  \<^verbatim>\<open>SendDownlinkFrame(pl)\<close>. The frame struct is a copy; the LoRa object it points to
  is the caller's. The result is the outcome, the store and the backend afterwards.
\<close>

definition SendDownlinkFrame ::
  "codec \<Rightarrow> exchange \<Rightarrow> DownlinkFrame \<Rightarrow> heap \<times> Backend
     \<Rightarrow> error option outcome \<times> heap \<times> Backend" where
  "SendDownlinkFrame c x pl hb =
     (let h = fst hb; b = snd hb;
          h1 = (case GetLoraModulationInfo h (GetTxInfo pl) of
                  None \<Rightarrow> h
                | Some a \<Rightarrow> store_Bandwidth a (bandwidth_to_wire (Bandwidth (loras h a))) h);
          b1 = log InfoLevel ''backend/concentratord: forwarding downlink command'' b
      in case commandRequest c x ''down'' (Some (h1, pl)) b1 of
           (Hang, b2) \<Rightarrow> (Hang, h1, b2)
         | (Fatal, b2) \<Rightarrow> (Fatal, h1, b2)
         | (Return (Inl err), b2) \<Rightarrow>
             (Fatal, h1, log FatalLevel ''backend/concentratord: send downlink command error'' b2)
         | (Return (Inr bb), b2) \<Rightarrow>
             if length bb = 0
             then (Return (Some (New ''no reply receieved, check concentratord logs for error'')),
                   h1, b2)
             else (case Unmarshal_DownlinkTXAck c bb of
                     Inl err \<Rightarrow> (Return (Some (Wrap err ''protobuf unmarshal error'')), h1, b2)
                   | Inr ack \<Rightarrow>
                       (Return None, h1, b2\<lparr>downlinkTXAckChan := downlinkTXAckChan b2 @ [ack]\<rparr>)))"

subsection \<open>getGatewayID, NewBackend and Close\<close>

definition getGatewayID :: "codec \<Rightarrow> exchange \<Rightarrow> Backend \<Rightarrow> (EUI64 \<times> error option) outcome \<times> Backend" where
  "getGatewayID c x b =
     (case commandRequest c x ''gateway_id'' None b of
        (Hang, b1) \<Rightarrow> (Hang, b1)
      | (Fatal, b1) \<Rightarrow> (Fatal, b1)
      | (Return (Inl err), b1) \<Rightarrow>
          (Return (zero_EUI64, Some (Wrap err ''request gateway id error'')), b1)
      | (Return (Inr bb), b1) \<Rightarrow> (Return (copy zero_EUI64 bb, None), b1))"

text \<open>The part of \<^verbatim>\<open>config.Config\<close> that \<^verbatim>\<open>NewBackend\<close> reads.\<close>

record Config =
  EventURL :: string
  CommandURL :: string
  CRCCheck :: bool

text \<open>What the sockets do during \<^verbatim>\<open>NewBackend\<close>: the result of each of the three opening
  calls (\<open>None\<close> is a \<^verbatim>\<open>nil\<close> error) and the exchange of the identifier query.\<close>

record startup =
  Dial_event :: "error option"
  SetOption_event :: "error option"
  Dial_command :: "error option"
  gateway_id_exchange :: exchange

text \<open>
  \<^verbatim>\<open>NewBackend(conf)\<close> returns the backend or an error. \<^verbatim>\<open>go b.eventLoop()\<close> starts
  the loop, which is \<open>eventLoop\<close> below, run on the backend returned here.
\<close>

definition NewBackend :: "codec \<Rightarrow> startup \<Rightarrow> Config \<Rightarrow> (error + Backend) outcome" where
  "NewBackend c env conf =
     (let b = log InfoLevel ''backend/concentratord: setting up backend''
                \<lparr>eventSock_closed = False, commandSock_sent = [], commandMux = False,
                 downlinkTXAckChan = [], uplinkFrameChan = [], gatewayStatsChan = [],
                 subscribeEventChan = [], crcCheck = CRCCheck conf, logged = []\<rparr>
      in case Dial_event env of
           Some err \<Rightarrow> Return (Inl (Wrap err ''dial event api url error''))
         | None \<Rightarrow>
             (case SetOption_event env of
                Some err \<Rightarrow> Return (Inl (Wrap err ''set event option error''))
              | None \<Rightarrow>
                  (case Dial_command env of
                     Some err \<Rightarrow> Return (Inl (Wrap err ''dial command api url error''))
                   | None \<Rightarrow>
                       (case getGatewayID c (gateway_id_exchange env) b of
                          (Hang, b1) \<Rightarrow> Hang
                        | (Fatal, b1) \<Rightarrow> Fatal
                        | (Return (gatewayID, Some err), b1) \<Rightarrow>
                            Return (Inl (Wrap err ''get gateway id error''))
                        | (Return (gatewayID, None), b1) \<Rightarrow>
                            Return (Inr (b1\<lparr>subscribeEventChan := subscribeEventChan b1 @
                              [\<lparr>Subscribe = True, GatewayID = gatewayID\<rparr>]\<rparr>))))))"

definition Close :: "Backend \<Rightarrow> error option \<times> Backend" where
  "Close b = (None, b\<lparr>eventSock_closed := True\<rparr>)"

definition ApplyConfiguration :: "Backend \<Rightarrow> error option \<times> Backend" where
  "ApplyConfiguration b = (None, b)"

definition RawPacketForwarderCommand :: "Backend \<Rightarrow> error option \<times> Backend" where
  "RawPacketForwarderCommand b = (None, b)"

subsection \<open>The event handlers and the event loop\<close>

definition handleUplinkFrame :: "codec \<Rightarrow> bytes \<Rightarrow> Backend \<Rightarrow> error option \<times> Backend" where
  "handleUplinkFrame c bb b =
     (case Unmarshal_UplinkFrame c bb of
        Inl err \<Rightarrow> (Some (Wrap err ''protobuf unmarshal error''), b)
      | Inr pl \<Rightarrow>
          if crcCheck b \<and> GetCrcStatus (uf_RxInfo pl) \<noteq> CRC_OK
          then (None, log DebugLevel
                  ''backend/concentratord: ignoring uplink event, CRC is not valid'' b)
          else
            (let pl1 = (case GetLoraModulationInfo_up (uf_TxInfo pl) of
                          None \<Rightarrow> pl
                        | Some l \<Rightarrow> store_Bandwidth_up (bandwidth_from_wire (Bandwidth l)) pl);
                 b1 = log InfoLevel ''backend/concentratord: uplink event received'' b
             in (None, b1\<lparr>uplinkFrameChan := uplinkFrameChan b1 @ [pl1]\<rparr>)))"

definition handleGatewayStats :: "codec \<Rightarrow> bytes \<Rightarrow> Backend \<Rightarrow> error option \<times> Backend" where
  "handleGatewayStats c bb b =
     (case Unmarshal_GatewayStats c bb of
        Inl err \<Rightarrow> (Some (Wrap err ''protobuf unmarshal error''), b)
      | Inr pl \<Rightarrow>
          (let b1 = log InfoLevel ''backend/concentratord: stats event received'' b
           in (None, b1\<lparr>gatewayStatsChan := gatewayStatsChan b1 @ [pl]\<rparr>)))"

text \<open>
  \<^verbatim>\<open>eventLoop()\<close> on the results of its successive \<^verbatim>\<open>b.eventSock.Recv()\<close> calls: an
  error, or a message (\<^verbatim>\<open>msg.Frames\<close>). The loop has no exit of its own: with no
  result left it is waiting in \<^verbatim>\<open>Recv\<close> (\<open>Receiving\<close>); a receive error ends the
  process (\<open>Exited\<close>).
\<close>

datatype loop = Receiving | Exited

text \<open>The end of an iteration that called a handler (lines 225 to 229).\<close>

definition handled :: "error option \<times> Backend \<Rightarrow> Backend" where
  "handled r =
     (case r of
        (None, b) \<Rightarrow> b
      | (Some err, b) \<Rightarrow> log ErrorLevel ''backend/concentratord: handle event error'' b)"

fun eventLoop :: "codec \<Rightarrow> Backend \<Rightarrow> (error + bytes list) list \<Rightarrow> loop \<times> Backend" where
  "eventLoop c b [] = (Receiving, b)"
| "eventLoop c b (Inl err # rs) =
     (Exited, log FatalLevel ''backend/concentratord: receive event message error'' b)"
| "eventLoop c b (Inr Frames # rs) =
     (if length Frames = 0 then eventLoop c b rs
      else if length Frames \<noteq> 2
      then eventLoop c
             (log ErrorLevel ''backend/concentratord: expected 2 frames in event message'' b) rs
      else if Frames ! 0 = ''up''
      then eventLoop c (handled (handleUplinkFrame c (Frames ! 1) b)) rs
      else if Frames ! 0 = ''stats''
      then eventLoop c (handled (handleGatewayStats c (Frames ! 1) b)) rs
      else eventLoop c
             (log ErrorLevel ''backend/concentratord: unexpected event received'' b) rs)"

subsection \<open>The life of a backend\<close>

text \<open>
  What happens to a backend after \<^verbatim>\<open>NewBackend\<close>: its methods are called and its loop
  receives. \<open>run\<close> applies a sequence of such steps; nothing follows the end of the
  process.
\<close>

datatype step =
    Call_SendDownlinkFrame exchange DownlinkFrame
  | Call_Close
  | Call_ApplyConfiguration
  | Call_RawPacketForwarderCommand
  | Loop_Recv "error + bytes list"

fun run :: "codec \<Rightarrow> heap \<times> Backend \<Rightarrow> step list \<Rightarrow> bool \<times> heap \<times> Backend" where
  "run c hb [] = (True, hb)"
| "run c hb (Call_SendDownlinkFrame x pl # ss) =
     (case SendDownlinkFrame c x pl hb of
        (Fatal, hb1) \<Rightarrow> (False, hb1)
      | (_, hb1) \<Rightarrow> run c hb1 ss)"
| "run c hb (Call_Close # ss) = run c (fst hb, snd (Close (snd hb))) ss"
| "run c hb (Call_ApplyConfiguration # ss) = run c (fst hb, snd (ApplyConfiguration (snd hb))) ss"
| "run c hb (Call_RawPacketForwarderCommand # ss) =
     run c (fst hb, snd (RawPacketForwarderCommand (snd hb))) ss"
| "run c hb (Loop_Recv r # ss) =
     (case eventLoop c (snd hb) [r] of
        (Exited, b1) \<Rightarrow> (False, fst hb, b1)
      | (Receiving, b1) \<Rightarrow> run c (fst hb, b1) ss)"

subsection \<open>Notions used in the statements\<close>

text \<open>The store after lines 122 to 125 of \<^verbatim>\<open>SendDownlinkFrame\<close>.\<close>

definition rebased :: "heap \<Rightarrow> DownlinkFrame \<Rightarrow> heap" where
  "rebased h pl =
     (case GetLoraModulationInfo h (GetTxInfo pl) of
        None \<Rightarrow> h
      | Some a \<Rightarrow> store_Bandwidth a (bandwidth_to_wire (Bandwidth (loras h a))) h)"

text \<open>The uplink frame after lines 251 to 254 of \<^verbatim>\<open>handleUplinkFrame\<close>.\<close>

definition delivered :: "UplinkFrame \<Rightarrow> UplinkFrame" where
  "delivered pl =
     (case GetLoraModulationInfo_up (uf_TxInfo pl) of
        None \<Rightarrow> pl
      | Some l \<Rightarrow> store_Bandwidth_up (bandwidth_from_wire (Bandwidth l)) pl)"

text \<open>The exchanges in which \<^verbatim>\<open>SendMulti\<close> writes the request to the socket.\<close>

definition SendMulti_ok :: "exchange \<Rightarrow> bool" where
  "SendMulti_ok x = (case x of SendMulti_error err \<Rightarrow> False | _ \<Rightarrow> True)"

text \<open>
  The event messages that reach no channel send in \<^verbatim>\<open>eventLoop\<close>: no frame (line 202),
  a frame count other than two (line 206), a first frame that is neither \<^verbatim>\<open>up\<close> nor
  \<^verbatim>\<open>stats\<close> (line 218), or a payload its handler cannot decode (lines 236 and 268).
\<close>

definition malformed :: "codec \<Rightarrow> bytes list \<Rightarrow> bool" where
  "malformed c Frames =
     (length Frames = 0
      \<or> length Frames \<noteq> 2
      \<or> (Frames ! 0 \<noteq> ''up'' \<and> Frames ! 0 \<noteq> ''stats'')
      \<or> (Frames ! 0 = ''up'' \<and> isl (Unmarshal_UplinkFrame c (Frames ! 1)))
      \<or> (Frames ! 0 = ''stats'' \<and> isl (Unmarshal_GatewayStats c (Frames ! 1))))"

text \<open>The four output channels of a backend.\<close>

definition queues ::
  "Backend \<Rightarrow> UplinkFrame list \<times> GatewayStats list \<times> DownlinkTXAck list \<times> events_Subscribe list" where
  "queues b = (uplinkFrameChan b, gatewayStatsChan b, downlinkTXAckChan b, subscribeEventChan b)"

subsection \<open>Concrete inputs\<close>

text \<open>
  A store in which every transmit info points to the LoRa object at address 0 and every
  LoRa object has bandwidth \<open>bw\<close>, a downlink frame pointing into it, uplink frames, a
  codec that knows a few byte strings, and the backend \<^verbatim>\<open>NewBackend\<close> returns when the
  identifier query is answered with \<^verbatim>\<open>gateway1\<close>.
\<close>

definition demo_lora :: "uint32 \<Rightarrow> LoRaModulationInfo" where
  "demo_lora bw = \<lparr>Bandwidth = bw, SpreadingFactor = 7, CodeRate = ''4/5'',
     PolarizationInversion = True\<rparr>"

definition demo_txinfo :: DownlinkTXInfo where
  "demo_txinfo = \<lparr>dtx_GatewayId = ''gateway1'', dtx_Frequency = 868100000, dtx_Power = 14,
     dtx_ModulationInfo = Some (DownlinkTXInfo_LoraModulationInfo (Some 0)),
     dtx_Context = []\<rparr>"

definition demo_heap :: "uint32 \<Rightarrow> heap" where
  "demo_heap bw = \<lparr>txinfos = (\<lambda>a. demo_txinfo), loras = (\<lambda>a. demo_lora bw)\<rparr>"

definition demo_frame :: DownlinkFrame where
  "demo_frame = \<lparr>df_PhyPayload = ''phy'', df_TxInfo = Some 0, df_Token = 1,
     df_DownlinkId = ''id''\<rparr>"

definition demo_ack :: DownlinkTXAck where
  "demo_ack = \<lparr>ack_GatewayId = ''gateway1'', ack_Token = 1, ack_Error = [],
     ack_DownlinkId = ''id''\<rparr>"

definition demo_uplink :: "CRCStatus \<Rightarrow> uint32 \<Rightarrow> UplinkFrame" where
  "demo_uplink crc bw = \<lparr>uf_PhyPayload = ''phy'',
     uf_TxInfo = Some \<lparr>utx_Frequency = 868100000,
       utx_ModulationInfo = Some (UplinkTXInfo_LoraModulationInfo (Some (demo_lora bw)))\<rparr>,
     uf_RxInfo = Some \<lparr>urx_GatewayId = ''gateway1'', urx_Rssi = 0, urx_UplinkId = ''id'',
       urx_CrcStatus = crc\<rparr>\<rparr>"

definition demo_stats :: GatewayStats where
  "demo_stats = \<lparr>gs_GatewayId = ''gateway1'', gs_StatsId = ''id'', gs_RxPacketsReceived = 3\<rparr>"

definition demo_codec :: codec where
  "demo_codec = \<lparr>
     Marshal_DownlinkFrame = (\<lambda>h pl.
       case GetLoraModulationInfo h (GetTxInfo pl) of
         None \<Rightarrow> Inl (New ''proto: no modulation'')
       | Some a \<Rightarrow>
           Inr (if Bandwidth (loras h a) = 125000 then ''bw=125000''
                else if Bandwidth (loras h a) = 704 then ''bw=704'' else ''bw=other'')),
     Unmarshal_DownlinkTXAck = (\<lambda>bb.
       if bb = ''ack'' then Inr demo_ack else Inl (New ''proto: cannot parse'')),
     Unmarshal_UplinkFrame = (\<lambda>bb.
       if bb = ''bad crc'' then Inr (demo_uplink BAD_CRC 125000)
       else if bb = ''crc ok'' then Inr (demo_uplink CRC_OK 125000)
       else Inl (New ''proto: cannot parse'')),
     Unmarshal_GatewayStats = (\<lambda>bb.
       if bb = ''stats'' then Inr demo_stats else Inl (New ''proto: cannot parse''))\<rparr>"

definition demo_startup :: "exchange \<Rightarrow> startup" where
  "demo_startup x = \<lparr>Dial_event = None, SetOption_event = None, Dial_command = None,
     gateway_id_exchange = x\<rparr>"

definition demo_conf :: "bool \<Rightarrow> Config" where
  "demo_conf crc = \<lparr>EventURL = ''ipc:///tmp/concentratord_event'',
     CommandURL = ''ipc:///tmp/concentratord_command'', CRCCheck = crc\<rparr>"

definition demo_backend :: "bool \<Rightarrow> Backend" where
  "demo_backend crc = \<lparr>eventSock_closed = False, commandSock_sent = [[''gateway_id'', []]],
     commandMux = False, downlinkTXAckChan = [], uplinkFrameChan = [], gatewayStatsChan = [],
     subscribeEventChan = [\<lparr>Subscribe = True, GatewayID = ''gateway1''\<rparr>],
     crcCheck = crc,
     logged = [(InfoLevel, ''backend/concentratord: setting up backend'')]\<rparr>"

section \<open>Properties\<close>

lemmas demo_defs = demo_lora_def demo_txinfo_def demo_heap_def demo_frame_def demo_ack_def
  demo_uplink_def demo_stats_def demo_codec_def demo_backend_def demo_startup_def demo_conf_def

lemmas send_defs = SendDownlinkFrame_def commandRequest_def GetLoraModulationInfo_def
  GetTxInfo_def store_Bandwidth_def log_def bandwidth_to_wire_def

subsection \<open>The two rebasings as arithmetic on \<^verbatim>\<open>uint32\<close>\<close>

lemma unat_bandwidth_to_wire:
  "unat (bandwidth_to_wire bw) = unat bw * 1000 mod 2 ^ 32"
  by (simp add: bandwidth_to_wire_def unat_word_ariths)

lemma unat_bandwidth_from_wire:
  "unat (bandwidth_from_wire bw) = unat bw div 1000"
  by (simp add: bandwidth_from_wire_def unat_div)

lemma from_wire_to_wire:
  "unat bw * 1000 < 2 ^ 32 \<Longrightarrow> bandwidth_from_wire (bandwidth_to_wire bw) = bw"
  by (rule word_unat_eq_iff [THEN iffD2])
    (simp add: unat_bandwidth_from_wire unat_bandwidth_to_wire)

lemma to_wire_from_wire:
  "1000 dvd unat bw \<Longrightarrow> bandwidth_to_wire (bandwidth_from_wire bw) = bw"
proof (rule word_unat_eq_iff [THEN iffD2])
  assume d: "1000 dvd unat bw"
  have "unat bw < 2 ^ 32" using unsigned_less [of bw] by simp
  with d show "unat (bandwidth_to_wire (bandwidth_from_wire bw)) = unat bw"
    by (simp add: unat_bandwidth_from_wire unat_bandwidth_to_wire)
qed

subsection \<open>SendDownlinkFrame: the store and the request\<close>

lemma SendDownlinkFrame_rebased:
  "fst (snd (SendDownlinkFrame c x pl (h, b))) = rebased h pl"
  by (simp add: SendDownlinkFrame_def commandRequest_def Let_def rebased_def
      split: option.splits sum.splits exchange.splits)

lemma SendDownlinkFrame_sent:
  "Marshal_DownlinkFrame c (rebased h pl) pl = Inr bb \<Longrightarrow> SendMulti_ok x \<Longrightarrow>
   \<not> commandMux b \<Longrightarrow>
   commandSock_sent (snd (snd (SendDownlinkFrame c x pl (h, b)))) =
     commandSock_sent b @ [[''down'', bb]]"
  by (simp add: SendDownlinkFrame_def commandRequest_def Let_def log_def SendMulti_ok_def
      rebased_def split: option.splits sum.splits exchange.splits)

lemma demo_marshal:
  "Marshal_DownlinkFrame demo_codec (rebased (demo_heap 125) demo_frame) demo_frame =
     Inr ''bw=125000''"
  by (simp add: demo_defs rebased_def GetLoraModulationInfo_def GetTxInfo_def
      store_Bandwidth_def bandwidth_to_wire_def)

text \<open>
  Claim C1, as amended. When the frame's transmit info carries LoRa modulation info (the
  object at address \<open>a\<close>, bandwidth \<open>B\<close>), \<^verbatim>\<open>SendDownlinkFrame\<close> writes \<open>B * 1000\<close>
  in \<^verbatim>\<open>uint32\<close> arithmetic into that object, in the caller's store, before it encodes:
  the store after the call is the store with that one write, whatever the outcome; the new
  bandwidth is \<open>B * 1000 mod 2 ^ 32\<close>, which is \<open>B * 1000\<close> when that is below
  \<open>2 ^ 32\<close>; and the request written to the command socket (by a call that gets the
  mutex and whose send succeeds) is the topic \<^verbatim>\<open>down\<close> with the encoding of the
  rebased frame.
\<close>

theorem SendDownlinkFrame_bandwidth_on_wire:
  "GetLoraModulationInfo h (GetTxInfo pl) = Some a \<Longrightarrow>
   (let B = Bandwidth (loras h a);
        h' = store_Bandwidth a (bandwidth_to_wire B) h;
        r = SendDownlinkFrame c x pl (h, b)
    in fst (snd r) = h'
       \<and> unat (Bandwidth (loras h' a)) = unat B * 1000 mod 2 ^ 32
       \<and> (unat B * 1000 < 2 ^ 32 \<longrightarrow> unat (Bandwidth (loras h' a)) = unat B * 1000)
       \<and> (\<forall>bb. Marshal_DownlinkFrame c h' pl = Inr bb \<and> SendMulti_ok x \<and> \<not> commandMux b \<longrightarrow>
             commandSock_sent (snd (snd r)) = commandSock_sent b @ [[''down'', bb]]))"
proof -
  assume a: "GetLoraModulationInfo h (GetTxInfo pl) = Some a"
  define B where "B = Bandwidth (loras h a)"
  define h' where "h' = store_Bandwidth a (bandwidth_to_wire B) h"
  have r: "rebased h pl = h'"
    by (simp add: rebased_def a h'_def B_def)
  have 1: "fst (snd (SendDownlinkFrame c x pl (h, b))) = h'"
    by (simp add: SendDownlinkFrame_rebased r)
  have 2: "unat (Bandwidth (loras h' a)) = unat B * 1000 mod 2 ^ 32"
    by (simp add: h'_def store_Bandwidth_def unat_bandwidth_to_wire)
  have 3: "unat B * 1000 < 2 ^ 32 \<longrightarrow> unat (Bandwidth (loras h' a)) = unat B * 1000"
    using 2 by simp
  have 4: "\<forall>bb. Marshal_DownlinkFrame c h' pl = Inr bb \<and> SendMulti_ok x \<and> \<not> commandMux b \<longrightarrow>
      commandSock_sent (snd (snd (SendDownlinkFrame c x pl (h, b)))) =
        commandSock_sent b @ [[''down'', bb]]"
    using SendDownlinkFrame_sent [of c h pl _ x b] by (simp add: r)
  from 1 2 3 4 show ?thesis
    unfolding Let_def B_def [symmetric] h'_def [symmetric] by blast
qed

text \<open>Bandwidth 125 goes out as 125000, in the store and in the request.\<close>

theorem SendDownlinkFrame_bandwidth_on_wire_witness:
  "GetLoraModulationInfo (demo_heap 125) (GetTxInfo demo_frame) = Some 0
   \<and> SendMulti_ok (Recv_reply ''ack'') \<and> \<not> commandMux (demo_backend False)
   \<and> unat (Bandwidth (loras (demo_heap 125) 0)) = 125
   \<and> unat (Bandwidth (loras (fst (snd (SendDownlinkFrame demo_codec (Recv_reply ''ack'')
         demo_frame (demo_heap 125, demo_backend False)))) 0)) = 125000
   \<and> commandSock_sent (snd (snd (SendDownlinkFrame demo_codec (Recv_reply ''ack'')
         demo_frame (demo_heap 125, demo_backend False)))) =
       [[''gateway_id'', []], [''down'', ''bw=125000'']]"
proof -
  have g: "GetLoraModulationInfo (demo_heap 125) (GetTxInfo demo_frame) = Some 0"
    by (simp add: demo_defs GetLoraModulationInfo_def GetTxInfo_def)
  show ?thesis
    using SendDownlinkFrame_bandwidth_on_wire [OF g, of demo_codec "Recv_reply ''ack''"
        "demo_backend False"]
    by (simp add: demo_defs send_defs SendMulti_ok_def Let_def)
qed

text \<open>
  Claim C1 as stated fails where \<open>B * 1000\<close> does not fit 32 bits: bandwidth 4294968 is
  sent as 704 (4294968000 - 2 ^ 32), not as 4294968000.
\<close>

theorem SendDownlinkFrame_bandwidth_overflow:
  "GetLoraModulationInfo (demo_heap 4294968) (GetTxInfo demo_frame) = Some 0
   \<and> unat (Bandwidth (loras (demo_heap 4294968) 0)) = 4294968
   \<and> unat (Bandwidth (loras (fst (snd (SendDownlinkFrame demo_codec (Recv_reply ''ack'')
         demo_frame (demo_heap 4294968, demo_backend False)))) 0)) = 704
   \<and> commandSock_sent (snd (snd (SendDownlinkFrame demo_codec (Recv_reply ''ack'')
         demo_frame (demo_heap 4294968, demo_backend False)))) =
       [[''gateway_id'', []], [''down'', ''bw=704'']]
   \<and> (704 :: nat) \<noteq> 4294968 * 1000"
  by (simp add: demo_defs send_defs Let_def)

text \<open>
  Claim C10, as amended. Whatever the codec and the command socket do (an encode error, a
  failed send or receive, a reply of zero length, a reply that does not decode, a reply
  that never comes, or success), after \<^verbatim>\<open>SendDownlinkFrame\<close> the caller's frame points to
  the same objects, the LoRa object it points to holds its old bandwidth times 1000 in
  \<^verbatim>\<open>uint32\<close> arithmetic (the product modulo \<open>2 ^ 32\<close>, the product itself when it
  fits) and its other fields as before, and every other object of the store is unchanged.
  A frame without LoRa modulation info leaves the store as it was.
\<close>

theorem SendDownlinkFrame_mutation_persists:
  "(let h' = fst (snd (SendDownlinkFrame c x pl (h, b)))
    in txinfos h' = txinfos h
       \<and> GetLoraModulationInfo h' (GetTxInfo pl) = GetLoraModulationInfo h (GetTxInfo pl)
       \<and> (GetLoraModulationInfo h (GetTxInfo pl) = None \<longrightarrow> h' = h)
       \<and> (\<forall>a. GetLoraModulationInfo h (GetTxInfo pl) = Some a \<longrightarrow>
             loras h' a = (loras h a)\<lparr>Bandwidth := bandwidth_to_wire (Bandwidth (loras h a))\<rparr>
             \<and> unat (Bandwidth (loras h' a)) = unat (Bandwidth (loras h a)) * 1000 mod 2 ^ 32
             \<and> (unat (Bandwidth (loras h a)) * 1000 < 2 ^ 32 \<longrightarrow>
                  unat (Bandwidth (loras h' a)) = unat (Bandwidth (loras h a)) * 1000)
             \<and> (\<forall>a'. a' \<noteq> a \<longrightarrow> loras h' a' = loras h a')))"
proof -
  have t: "txinfos (rebased h pl) = txinfos h"
    by (simp add: rebased_def store_Bandwidth_def split: option.splits)
  have g: "GetLoraModulationInfo (rebased h pl) (GetTxInfo pl) =
      GetLoraModulationInfo h (GetTxInfo pl)"
    unfolding GetLoraModulationInfo_def t by (rule refl)
  have n: "GetLoraModulationInfo h (GetTxInfo pl) = None \<longrightarrow> rebased h pl = h"
    by (simp add: rebased_def)
  have s: "\<forall>a. GetLoraModulationInfo h (GetTxInfo pl) = Some a \<longrightarrow>
      loras (rebased h pl) a =
        (loras h a)\<lparr>Bandwidth := bandwidth_to_wire (Bandwidth (loras h a))\<rparr>
      \<and> unat (Bandwidth (loras (rebased h pl) a)) =
          unat (Bandwidth (loras h a)) * 1000 mod 2 ^ 32
      \<and> (unat (Bandwidth (loras h a)) * 1000 < 2 ^ 32 \<longrightarrow>
           unat (Bandwidth (loras (rebased h pl) a)) = unat (Bandwidth (loras h a)) * 1000)
      \<and> (\<forall>a'. a' \<noteq> a \<longrightarrow> loras (rebased h pl) a' = loras h a')"
    by (simp add: rebased_def store_Bandwidth_def unat_bandwidth_to_wire)
  from t g n s show ?thesis
    unfolding Let_def SendDownlinkFrame_rebased by blast
qed

text \<open>A call that fails on a reply of zero length: the LoRa object at address 0 has
  bandwidth 125000 afterwards, the object at address 1 is as before.\<close>

theorem SendDownlinkFrame_mutation_persists_witness:
  "GetLoraModulationInfo (demo_heap 125) (GetTxInfo demo_frame) = Some 0
   \<and> fst (SendDownlinkFrame demo_codec (Recv_reply []) demo_frame
        (demo_heap 125, demo_backend False))
       = Return (Some (New ''no reply receieved, check concentratord logs for error''))
   \<and> loras (fst (snd (SendDownlinkFrame demo_codec (Recv_reply []) demo_frame
        (demo_heap 125, demo_backend False)))) 0 = demo_lora 125000
   \<and> loras (fst (snd (SendDownlinkFrame demo_codec (Recv_reply []) demo_frame
        (demo_heap 125, demo_backend False)))) 1 = demo_lora 125"
  using SendDownlinkFrame_mutation_persists [of demo_codec "Recv_reply []" demo_frame
      "demo_heap 125" "demo_backend False"]
  by (simp add: demo_defs send_defs Let_def)

text \<open>
  Claim C10 as stated fails on the same overflow: after a call that returns an error, a
  bandwidth of 4294968 has become 704, not 1000 times 4294968.
\<close>

theorem SendDownlinkFrame_failed_call_overflow:
  "fst (SendDownlinkFrame demo_codec (Recv_reply []) demo_frame
        (demo_heap 4294968, demo_backend False))
     = Return (Some (New ''no reply receieved, check concentratord logs for error''))
   \<and> unat (Bandwidth (loras (demo_heap 4294968) 0)) = 4294968
   \<and> unat (Bandwidth (loras (fst (snd (SendDownlinkFrame demo_codec (Recv_reply []) demo_frame
        (demo_heap 4294968, demo_backend False)))) 0)) = 704
   \<and> (704 :: nat) \<noteq> 1000 * 4294968"
  by (simp add: demo_defs send_defs Let_def)

text \<open>
  Claim C4. When the command exchange of a \<^verbatim>\<open>SendDownlinkFrame\<close> call returns a reply
  of zero length, nothing is sent on the acknowledgement channel, and the call (whose
  request was encoded and written as \<^verbatim>\<open>down\<close>) returns the error
  \<^verbatim>\<open>no reply receieved, check concentratord logs for error\<close>. The function returns an
  error or \<^verbatim>\<open>nil\<close> and never an acknowledgement.
\<close>

theorem SendDownlinkFrame_empty_reply:
  "length bb = 0 \<Longrightarrow> \<not> commandMux b \<Longrightarrow>
   downlinkTXAckChan (snd (snd (SendDownlinkFrame c (Recv_reply bb) pl (h, b)))) =
     downlinkTXAckChan b
   \<and> (\<forall>req. Marshal_DownlinkFrame c (rebased h pl) pl = Inr req \<longrightarrow>
         fst (SendDownlinkFrame c (Recv_reply bb) pl (h, b)) =
           Return (Some (New ''no reply receieved, check concentratord logs for error''))
         \<and> commandSock_sent (snd (snd (SendDownlinkFrame c (Recv_reply bb) pl (h, b)))) =
             commandSock_sent b @ [[''down'', req]])"
  by (simp add: SendDownlinkFrame_def commandRequest_def Let_def log_def rebased_def
      split: option.splits sum.splits)

theorem SendDownlinkFrame_empty_reply_witness:
  "length ([] :: bytes) = 0 \<and> \<not> commandMux (demo_backend False)
   \<and> Marshal_DownlinkFrame demo_codec (rebased (demo_heap 125) demo_frame) demo_frame =
       Inr ''bw=125000''
   \<and> fst (SendDownlinkFrame demo_codec (Recv_reply []) demo_frame
        (demo_heap 125, demo_backend False)) =
       Return (Some (New ''no reply receieved, check concentratord logs for error''))
   \<and> downlinkTXAckChan (snd (snd (SendDownlinkFrame demo_codec (Recv_reply []) demo_frame
        (demo_heap 125, demo_backend False)))) = []"
  using SendDownlinkFrame_empty_reply [of "[]" "demo_backend False" demo_codec demo_frame
      "demo_heap 125"] demo_marshal
  by (simp add: demo_backend_def)

text \<open>
  Claim C6, as amended. A reply of zero length makes \<^verbatim>\<open>SendDownlinkFrame\<close> return the
  error to its caller: the process goes on, and the steps that follow the call still run.
  It is a failed send or a failed receive on the command socket that ends the process
  (\<^verbatim>\<open>log.Fatal\<close>).
\<close>

theorem SendDownlinkFrame_empty_reply_not_fatal:
  "Marshal_DownlinkFrame c (rebased h pl) pl = Inr req \<Longrightarrow> \<not> commandMux b \<Longrightarrow>
   (\<forall>bb. length bb = 0 \<longrightarrow>
      fst (SendDownlinkFrame c (Recv_reply bb) pl (h, b)) =
        Return (Some (New ''no reply receieved, check concentratord logs for error''))
      \<and> run c (h, b) (Call_SendDownlinkFrame (Recv_reply bb) pl # ss) =
          run c (snd (SendDownlinkFrame c (Recv_reply bb) pl (h, b))) ss)
   \<and> (\<forall>err. fst (SendDownlinkFrame c (SendMulti_error err) pl (h, b)) = Fatal
        \<and> fst (run c (h, b) (Call_SendDownlinkFrame (SendMulti_error err) pl # ss)) = False)
   \<and> (\<forall>err. fst (SendDownlinkFrame c (Recv_error err) pl (h, b)) = Fatal
        \<and> fst (run c (h, b) (Call_SendDownlinkFrame (Recv_error err) pl # ss)) = False)"
  by (simp add: SendDownlinkFrame_def commandRequest_def Let_def log_def rebased_def
      split: option.splits sum.splits)

theorem SendDownlinkFrame_empty_reply_not_fatal_witness:
  "Marshal_DownlinkFrame demo_codec (rebased (demo_heap 125) demo_frame) demo_frame =
     Inr ''bw=125000''
   \<and> \<not> commandMux (demo_backend False)
   \<and> fst (SendDownlinkFrame demo_codec (Recv_reply []) demo_frame
        (demo_heap 125, demo_backend False)) =
        Return (Some (New ''no reply receieved, check concentratord logs for error''))
   \<and> fst (SendDownlinkFrame demo_codec (Recv_error (New ''EOF'')) demo_frame
        (demo_heap 125, demo_backend False)) = Fatal"
proof -
  have m: "\<not> commandMux (demo_backend False)"
    by (simp add: demo_backend_def)
  show ?thesis
    using SendDownlinkFrame_empty_reply_not_fatal [OF demo_marshal m, of "[]"] demo_marshal m
    by simp
qed

text \<open>
  Claim C6 as stated fails: on a reply of zero length the outcome of the call is a
  returned error, not the end of the process, and a run that makes this call is still
  alive after it.
\<close>

theorem SendDownlinkFrame_empty_reply_returns:
  "fst (SendDownlinkFrame demo_codec (Recv_reply []) demo_frame
      (demo_heap 125, demo_backend False))
     = Return (Some (New ''no reply receieved, check concentratord logs for error''))
   \<and> fst (SendDownlinkFrame demo_codec (Recv_reply []) demo_frame
      (demo_heap 125, demo_backend False)) \<noteq> Fatal
   \<and> fst (run demo_codec (demo_heap 125, demo_backend False)
        [Call_SendDownlinkFrame (Recv_reply []) demo_frame]) = True"
  by (simp add: demo_defs send_defs Let_def)

subsection \<open>handleUplinkFrame: the CRC check and the bandwidth\<close>

lemma store_Bandwidth_up_RxInfo: "uf_RxInfo (store_Bandwidth_up v pl) = uf_RxInfo pl"
  by (simp add: store_Bandwidth_up_def split: option.splits isUplinkTXInfo_ModulationInfo.splits)

lemma store_Bandwidth_up_Lora:
  "GetLoraModulationInfo_up (uf_TxInfo pl) = Some l \<Longrightarrow>
   GetLoraModulationInfo_up (uf_TxInfo (store_Bandwidth_up v pl)) = Some (l\<lparr>Bandwidth := v\<rparr>)"
  by (auto simp add: store_Bandwidth_up_def GetLoraModulationInfo_up_def
      split: option.splits isUplinkTXInfo_ModulationInfo.splits)

lemma delivered_RxInfo: "uf_RxInfo (delivered pl) = uf_RxInfo pl"
  by (simp add: delivered_def store_Bandwidth_up_RxInfo split: option.splits)

lemma handleUplinkFrame_dropped:
  "Unmarshal_UplinkFrame c bb = Inr pl \<Longrightarrow> crcCheck b \<Longrightarrow>
   GetCrcStatus (uf_RxInfo pl) \<noteq> CRC_OK \<Longrightarrow>
   handleUplinkFrame c bb b =
     (None, log DebugLevel ''backend/concentratord: ignoring uplink event, CRC is not valid'' b)"
  by (simp add: handleUplinkFrame_def)

lemma handleUplinkFrame_enqueued:
  "Unmarshal_UplinkFrame c bb = Inr pl \<Longrightarrow>
   \<not> (crcCheck b \<and> GetCrcStatus (uf_RxInfo pl) \<noteq> CRC_OK) \<Longrightarrow>
   handleUplinkFrame c bb b =
     (None, (log InfoLevel ''backend/concentratord: uplink event received'' b)
              \<lparr>uplinkFrameChan := uplinkFrameChan b @ [delivered pl]\<rparr>)"
  by (auto simp add: handleUplinkFrame_def delivered_def Let_def log_def)

lemma demo_unmarshal_bad_crc:
  "Unmarshal_UplinkFrame demo_codec ''bad crc'' = Inr (demo_uplink BAD_CRC 125000)"
  by (simp add: demo_codec_def)

lemma demo_uplink_lora:
  "GetLoraModulationInfo_up (uf_TxInfo (demo_uplink crc bw)) = Some (demo_lora bw)"
  by (simp add: demo_uplink_def GetLoraModulationInfo_up_def)

lemma demo_store_Bandwidth_up: "store_Bandwidth_up v (demo_uplink crc bw) = demo_uplink crc v"
  by (simp add: store_Bandwidth_up_def demo_uplink_def demo_lora_def)

text \<open>
  Claim C3. For an uplink event whose payload decodes to the frame \<open>pl\<close>: with CRC
  checking enabled and a CRC status other than \<^verbatim>\<open>CRC_OK\<close>, \<^verbatim>\<open>handleUplinkFrame\<close>
  returns \<^verbatim>\<open>nil\<close> and sends nothing on the uplink channel (nor does the loop iteration
  that called it); with CRC checking disabled the frame is sent on the uplink channel
  whatever its CRC status, which it keeps.
\<close>

theorem handleUplinkFrame_crc_check:
  "Unmarshal_UplinkFrame c bb = Inr pl \<Longrightarrow>
   (crcCheck b \<and> GetCrcStatus (uf_RxInfo pl) \<noteq> CRC_OK \<longrightarrow>
      fst (handleUplinkFrame c bb b) = None
      \<and> uplinkFrameChan (snd (handleUplinkFrame c bb b)) = uplinkFrameChan b
      \<and> uplinkFrameChan (snd (eventLoop c b [Inr [''up'', bb]])) = uplinkFrameChan b)
   \<and> (\<not> crcCheck b \<longrightarrow>
      fst (handleUplinkFrame c bb b) = None
      \<and> uplinkFrameChan (snd (handleUplinkFrame c bb b)) = uplinkFrameChan b @ [delivered pl]
      \<and> uplinkFrameChan (snd (eventLoop c b [Inr [''up'', bb]])) =
          uplinkFrameChan b @ [delivered pl]
      \<and> uf_RxInfo (delivered pl) = uf_RxInfo pl)"
proof (intro conjI impI)
  assume u: "Unmarshal_UplinkFrame c bb = Inr pl"
  {
    assume "crcCheck b \<and> GetCrcStatus (uf_RxInfo pl) \<noteq> CRC_OK"
    then have d: "handleUplinkFrame c bb b =
        (None, log DebugLevel
           ''backend/concentratord: ignoring uplink event, CRC is not valid'' b)"
      using handleUplinkFrame_dropped [OF u] by blast
    show "fst (handleUplinkFrame c bb b) = None" by (simp add: d)
    show "uplinkFrameChan (snd (handleUplinkFrame c bb b)) = uplinkFrameChan b"
      by (simp add: d log_def)
    show "uplinkFrameChan (snd (eventLoop c b [Inr [''up'', bb]])) = uplinkFrameChan b"
      by (simp add: d log_def handled_def)
  }
  {
    assume "\<not> crcCheck b"
    then have e: "handleUplinkFrame c bb b =
        (None, (log InfoLevel ''backend/concentratord: uplink event received'' b)
                 \<lparr>uplinkFrameChan := uplinkFrameChan b @ [delivered pl]\<rparr>)"
      using handleUplinkFrame_enqueued [OF u] by blast
    show "fst (handleUplinkFrame c bb b) = None" by (simp add: e)
    show "uplinkFrameChan (snd (handleUplinkFrame c bb b)) = uplinkFrameChan b @ [delivered pl]"
      by (simp add: e)
    show "uplinkFrameChan (snd (eventLoop c b [Inr [''up'', bb]])) =
        uplinkFrameChan b @ [delivered pl]"
      by (simp add: e handled_def)
    show "uf_RxInfo (delivered pl) = uf_RxInfo pl" by (rule delivered_RxInfo)
  }
qed

text \<open>The same frame with a bad CRC: dropped by a backend that checks, delivered (with
  bandwidth 125) by one that does not.\<close>

theorem handleUplinkFrame_crc_check_witness:
  "Unmarshal_UplinkFrame demo_codec ''bad crc'' = Inr (demo_uplink BAD_CRC 125000)
   \<and> crcCheck (demo_backend True)
   \<and> GetCrcStatus (uf_RxInfo (demo_uplink BAD_CRC 125000)) \<noteq> CRC_OK
   \<and> uplinkFrameChan (snd (handleUplinkFrame demo_codec ''bad crc'' (demo_backend True))) = []
   \<and> \<not> crcCheck (demo_backend False)
   \<and> uplinkFrameChan (snd (handleUplinkFrame demo_codec ''bad crc'' (demo_backend False)))
       = [demo_uplink BAD_CRC 125]"
proof -
  have d: "delivered (demo_uplink BAD_CRC 125000) = demo_uplink BAD_CRC 125"
    by (simp add: delivered_def demo_uplink_lora demo_store_Bandwidth_up demo_lora_def
        bandwidth_from_wire_def)
  show ?thesis
    using handleUplinkFrame_crc_check [OF demo_unmarshal_bad_crc, of "demo_backend True"]
      handleUplinkFrame_crc_check [OF demo_unmarshal_bad_crc, of "demo_backend False"]
      demo_unmarshal_bad_crc d
    by (simp add: demo_backend_def demo_uplink_def GetCrcStatus_def)
qed

text \<open>
  Claim C2, as amended. An uplink frame that decodes with LoRa modulation info of wire
  bandwidth \<open>W\<close> and is not dropped by the CRC check is sent on the uplink channel with
  bandwidth \<open>W div 1000\<close> (truncating \<^verbatim>\<open>uint32\<close> division). Dividing and then
  multiplying (line 253, then line 124) gives \<open>W\<close> back when 1000 divides \<open>W\<close>;
  multiplying and then dividing (line 124, then line 253) gives the value back when
  its product with 1000 is below \<open>2 ^ 32\<close>.
\<close>

theorem uplink_bandwidth_rebased:
  "Unmarshal_UplinkFrame c bb = Inr pl \<Longrightarrow>
   GetLoraModulationInfo_up (uf_TxInfo pl) = Some l \<Longrightarrow>
   \<not> (crcCheck b \<and> GetCrcStatus (uf_RxInfo pl) \<noteq> CRC_OK) \<Longrightarrow>
   (let W = Bandwidth l; pl' = store_Bandwidth_up (bandwidth_from_wire W) pl
    in uplinkFrameChan (snd (handleUplinkFrame c bb b)) = uplinkFrameChan b @ [pl']
       \<and> GetLoraModulationInfo_up (uf_TxInfo pl') =
           Some (l\<lparr>Bandwidth := bandwidth_from_wire W\<rparr>)
       \<and> unat (bandwidth_from_wire W) = unat W div 1000
       \<and> (1000 dvd unat W \<longrightarrow> bandwidth_to_wire (bandwidth_from_wire W) = W)
       \<and> (unat W * 1000 < 2 ^ 32 \<longrightarrow> bandwidth_from_wire (bandwidth_to_wire W) = W))"
proof -
  assume u: "Unmarshal_UplinkFrame c bb = Inr pl"
    and l: "GetLoraModulationInfo_up (uf_TxInfo pl) = Some l"
    and k: "\<not> (crcCheck b \<and> GetCrcStatus (uf_RxInfo pl) \<noteq> CRC_OK)"
  have d: "delivered pl = store_Bandwidth_up (bandwidth_from_wire (Bandwidth l)) pl"
    by (simp add: delivered_def l)
  have 1: "uplinkFrameChan (snd (handleUplinkFrame c bb b)) =
      uplinkFrameChan b @ [store_Bandwidth_up (bandwidth_from_wire (Bandwidth l)) pl]"
    by (simp add: handleUplinkFrame_enqueued [OF u k] d)
  have 2: "GetLoraModulationInfo_up
      (uf_TxInfo (store_Bandwidth_up (bandwidth_from_wire (Bandwidth l)) pl)) =
        Some (l\<lparr>Bandwidth := bandwidth_from_wire (Bandwidth l)\<rparr>)"
    by (rule store_Bandwidth_up_Lora [OF l])
  show ?thesis
    unfolding Let_def
    using 1 2 unat_bandwidth_from_wire [of "Bandwidth l"] to_wire_from_wire [of "Bandwidth l"]
      from_wire_to_wire [of "Bandwidth l"]
    by blast
qed

text \<open>Wire bandwidth 125000 is delivered as 125; 125000 and 125 both survive the round
  trip.\<close>

theorem uplink_bandwidth_rebased_witness:
  "Unmarshal_UplinkFrame demo_codec ''bad crc'' = Inr (demo_uplink BAD_CRC 125000)
   \<and> GetLoraModulationInfo_up (uf_TxInfo (demo_uplink BAD_CRC 125000)) = Some (demo_lora 125000)
   \<and> \<not> (crcCheck (demo_backend False)
         \<and> GetCrcStatus (uf_RxInfo (demo_uplink BAD_CRC 125000)) \<noteq> CRC_OK)
   \<and> uplinkFrameChan (snd (handleUplinkFrame demo_codec ''bad crc'' (demo_backend False)))
       = [demo_uplink BAD_CRC 125]
   \<and> 1000 dvd unat (125000 :: uint32)
   \<and> bandwidth_to_wire (bandwidth_from_wire 125000) = 125000
   \<and> unat (125 :: uint32) * 1000 < 2 ^ 32
   \<and> bandwidth_from_wire (bandwidth_to_wire 125) = 125"
proof -
  have k: "\<not> (crcCheck (demo_backend False)
      \<and> GetCrcStatus (uf_RxInfo (demo_uplink BAD_CRC 125000)) \<noteq> CRC_OK)"
    by (simp add: demo_backend_def)
  show ?thesis
    using uplink_bandwidth_rebased [OF demo_unmarshal_bad_crc demo_uplink_lora k]
      demo_unmarshal_bad_crc demo_uplink_lora [of BAD_CRC 125000] k
    by (simp add: Let_def demo_lora_def demo_backend_def demo_store_Bandwidth_up
        bandwidth_from_wire_def bandwidth_to_wire_def)
qed

text \<open>
  Claim C2 as stated fails for a value divisible by 1000 whose product with 1000 does not
  fit 32 bits: 4295000 is sent down as 32704 and comes back up as 32.
\<close>

theorem bandwidth_round_trip_overflow:
  "1000 dvd unat (4295000 :: uint32)
   \<and> Bandwidth (loras (fst (snd (SendDownlinkFrame demo_codec (Recv_reply ''ack'') demo_frame
        (demo_heap 4295000, demo_backend False)))) 0) = 32704
   \<and> bandwidth_from_wire 32704 = 32
   \<and> bandwidth_from_wire (bandwidth_to_wire 4295000) \<noteq> 4295000"
  by (simp add: demo_defs send_defs Let_def bandwidth_from_wire_def)

subsection \<open>eventLoop: the messages it skips\<close>

lemma queues_log: "queues (log lv msg b) = queues b"
  by (simp add: queues_def log_def)

lemma eventLoop_Cons_Inr:
  "eventLoop c b (Inr Frames # rs) = eventLoop c (snd (eventLoop c b [Inr Frames])) rs"
  by simp

lemma eventLoop_malformed_one:
  "malformed c Frames \<Longrightarrow>
   fst (eventLoop c b [Inr Frames]) = Receiving
   \<and> queues (snd (eventLoop c b [Inr Frames])) = queues b"
  by (auto simp add: malformed_def queues_log handled_def handleUplinkFrame_def
      handleGatewayStats_def isl_def)

lemma eventLoop_malformed_list:
  "\<forall>Frames \<in> set ms. malformed c Frames \<Longrightarrow>
   fst (eventLoop c b (map Inr ms)) = Receiving
   \<and> queues (snd (eventLoop c b (map Inr ms))) = queues b
   \<and> eventLoop c b (map Inr ms @ rs) = eventLoop c (snd (eventLoop c b (map Inr ms))) rs"
proof (induction ms arbitrary: b)
  case Nil
  show ?case by simp
next
  case (Cons m ms)
  define b1 where "b1 = snd (eventLoop c b [Inr m])"
  have m: "malformed c m" and ms: "\<forall>Frames \<in> set ms. malformed c Frames"
    using Cons.prems by simp_all
  have q: "queues b1 = queues b"
    unfolding b1_def using eventLoop_malformed_one [OF m] by simp
  have s: "eventLoop c b (Inr m # xs) = eventLoop c b1 xs" for xs
    unfolding b1_def by (rule eventLoop_Cons_Inr)
  have 1: "eventLoop c b (map Inr (m # ms)) = eventLoop c b1 (map Inr ms)"
    by (simp only: list.map s)
  have 2: "eventLoop c b (map Inr (m # ms) @ rs) = eventLoop c b1 (map Inr ms @ rs)"
    by (simp only: list.map append_Cons s)
  show ?case
    unfolding 1 2 using Cons.IH [OF ms, of b1] q by (simp del: eventLoop.simps)
qed

text \<open>
  Claim C7. After any sequence of received messages each of which has no frame, or a
  frame count other than two, or a first frame that is neither \<^verbatim>\<open>up\<close> nor
  \<^verbatim>\<open>stats\<close>, or a payload its handler fails to decode, the loop has not ended (it is
  receiving), it goes on with whatever is received next exactly as a loop that had skipped
  them, and each of the four output channels holds what it held before.
\<close>

theorem eventLoop_skips_malformed:
  "\<forall>Frames \<in> set ms. malformed c Frames \<Longrightarrow>
   fst (eventLoop c b (map Inr ms)) = Receiving
   \<and> eventLoop c b (map Inr ms @ rs) = eventLoop c (snd (eventLoop c b (map Inr ms))) rs
   \<and> uplinkFrameChan (snd (eventLoop c b (map Inr ms))) = uplinkFrameChan b
   \<and> gatewayStatsChan (snd (eventLoop c b (map Inr ms))) = gatewayStatsChan b
   \<and> downlinkTXAckChan (snd (eventLoop c b (map Inr ms))) = downlinkTXAckChan b
   \<and> subscribeEventChan (snd (eventLoop c b (map Inr ms))) = subscribeEventChan b"
  using eventLoop_malformed_list [of ms c b rs] by (simp add: queues_def)

text \<open>One message of each kind, in a row.\<close>

theorem eventLoop_skips_malformed_witness:
  "malformed demo_codec [] \<and> malformed demo_codec [''up'']
   \<and> malformed demo_codec [''up'', ''a'', ''b''] \<and> malformed demo_codec [''down'', ''x'']
   \<and> malformed demo_codec [''up'', ''junk''] \<and> malformed demo_codec [''stats'', ''junk'']
   \<and> fst (eventLoop demo_codec (demo_backend True)
        (map Inr [[], [''up''], [''up'', ''a'', ''b''], [''down'', ''x''], [''up'', ''junk''],
           [''stats'', ''junk'']])) = Receiving
   \<and> uplinkFrameChan (snd (eventLoop demo_codec (demo_backend True)
        (map Inr [[], [''up''], [''up'', ''a'', ''b''], [''down'', ''x''], [''up'', ''junk''],
           [''stats'', ''junk'']]))) = []
   \<and> gatewayStatsChan (snd (eventLoop demo_codec (demo_backend True)
        (map Inr [[], [''up''], [''up'', ''a'', ''b''], [''down'', ''x''], [''up'', ''junk''],
           [''stats'', ''junk'']]))) = []"
proof -
  have m: "\<forall>Frames \<in> set [[], [''up''], [''up'', ''a'', ''b''], [''down'', ''x''],
        [''up'', ''junk''], [''stats'', ''junk'']]. malformed demo_codec Frames"
    by (simp add: malformed_def demo_codec_def)
  show ?thesis
    using eventLoop_skips_malformed [OF m, of "demo_backend True" "[]"] m
    by (simp add: demo_backend_def)
qed

subsection \<open>NewBackend: the identifier query and the subscribe event\<close>

lemma copy_zero_EUI64:
  "copy zero_EUI64 bb = take 8 bb @ replicate (8 - length bb) (CHR 0x00)"
  by (simp add: copy_def zero_EUI64_def min_def)

lemma copy_abc:
  "copy zero_EUI64 ''abc'' =
     [CHR ''a'', CHR ''b'', CHR ''c'', CHR 0x00, CHR 0x00, CHR 0x00, CHR 0x00, CHR 0x00]"
  by (simp add: copy_def zero_EUI64_def eval_nat_numeral)

lemma copy_gateway1: "copy zero_EUI64 ''gateway1'' = ''gateway1''"
  by (simp add: copy_def zero_EUI64_def)

lemma demo_startup_dials:
  "Dial_event (demo_startup x) = None \<and> SetOption_event (demo_startup x) = None
   \<and> Dial_command (demo_startup x) = None"
  by (simp add: demo_startup_def)

lemma NewBackend_demo:
  "NewBackend demo_codec (demo_startup (Recv_reply ''gateway1'')) (demo_conf crc) =
     Return (Inr (demo_backend crc))"
  by (simp add: NewBackend_def getGatewayID_def commandRequest_def demo_startup_def
      demo_conf_def demo_backend_def log_def copy_gateway1 Let_def)

text \<open>
  Claim C5, as amended. With both sockets connected, the identifier query (one request,
  topic \<^verbatim>\<open>gateway_id\<close>, empty payload) makes \<^verbatim>\<open>NewBackend\<close> return an error, wrapped
  as \<^verbatim>\<open>request gateway id error\<close> and \<^verbatim>\<open>get gateway id error\<close>, when the send or
  the receive on the command socket fails. A reply of any length is accepted: its first
  eight bytes are copied into the identifier, a shorter reply leaves the remaining bytes
  zero, and \<^verbatim>\<open>NewBackend\<close> returns the backend with that identifier in its subscribe
  event.
\<close>

theorem NewBackend_gateway_id_query:
  "Dial_event env = None \<and> SetOption_event env = None \<and> Dial_command env = None \<Longrightarrow>
   (\<forall>err. gateway_id_exchange env = SendMulti_error err \<longrightarrow>
      NewBackend c env conf =
        Return (Inl (Wrap (Wrap (Wrap err ''send command request error'')
           ''request gateway id error'') ''get gateway id error'')))
   \<and> (\<forall>err. gateway_id_exchange env = Recv_error err \<longrightarrow>
      NewBackend c env conf =
        Return (Inl (Wrap (Wrap (Wrap err ''receive command request reply error'')
           ''request gateway id error'') ''get gateway id error'')))
   \<and> (\<forall>bb. gateway_id_exchange env = Recv_reply bb \<longrightarrow>
      NewBackend c env conf =
        Return (Inr \<lparr>eventSock_closed = False, commandSock_sent = [[''gateway_id'', []]],
          commandMux = False, downlinkTXAckChan = [], uplinkFrameChan = [], gatewayStatsChan = [],
          subscribeEventChan = [\<lparr>Subscribe = True,
             GatewayID = take 8 bb @ replicate (8 - length bb) (CHR 0x00)\<rparr>],
          crcCheck = CRCCheck conf,
          logged = [(InfoLevel, ''backend/concentratord: setting up backend'')]\<rparr>))"
  by (simp add: NewBackend_def getGatewayID_def commandRequest_def log_def Let_def
      copy_zero_EUI64)

text \<open>A receive that fails with \<^verbatim>\<open>EOF\<close>.\<close>

theorem NewBackend_gateway_id_query_witness:
  "Dial_event (demo_startup (Recv_error (New ''EOF''))) = None
   \<and> SetOption_event (demo_startup (Recv_error (New ''EOF''))) = None
   \<and> Dial_command (demo_startup (Recv_error (New ''EOF''))) = None
   \<and> gateway_id_exchange (demo_startup (Recv_error (New ''EOF''))) = Recv_error (New ''EOF'')
   \<and> NewBackend demo_codec (demo_startup (Recv_error (New ''EOF''))) (demo_conf True) =
        Return (Inl (Wrap (Wrap (Wrap (New ''EOF'') ''receive command request reply error'')
           ''request gateway id error'') ''get gateway id error''))"
proof -
  have x: "gateway_id_exchange (demo_startup (Recv_error (New ''EOF''))) = Recv_error (New ''EOF'')"
    by (simp add: demo_startup_def)
  show ?thesis
    using NewBackend_gateway_id_query [OF demo_startup_dials, of "Recv_error (New ''EOF'')"
        demo_codec "demo_conf True"] demo_startup_dials [of "Recv_error (New ''EOF'')"] x
    by simp
qed

text \<open>
  Claim C5 as stated fails on a short reply: a reply of three bytes does not abort the
  initialization; \<^verbatim>\<open>NewBackend\<close> returns a backend whose identifier is the three bytes
  followed by five zero bytes.
\<close>

theorem NewBackend_short_reply:
  "NewBackend demo_codec (demo_startup (Recv_reply ''abc'')) (demo_conf True) =
     Return (Inr \<lparr>eventSock_closed = False, commandSock_sent = [[''gateway_id'', []]],
       commandMux = False, downlinkTXAckChan = [], uplinkFrameChan = [], gatewayStatsChan = [],
       subscribeEventChan = [\<lparr>Subscribe = True,
          GatewayID = [CHR ''a'', CHR ''b'', CHR ''c'',
                       CHR 0x00, CHR 0x00, CHR 0x00, CHR 0x00, CHR 0x00]\<rparr>],
       crcCheck = True,
       logged = [(InfoLevel, ''backend/concentratord: setting up backend'')]\<rparr>)
   \<and> length ''abc'' < (8 :: nat)"
  by (simp add: NewBackend_def getGatewayID_def commandRequest_def demo_startup_def
      demo_conf_def log_def copy_abc Let_def)

lemma SendDownlinkFrame_subscribe:
  "subscribeEventChan (snd (snd (SendDownlinkFrame c x pl hb))) = subscribeEventChan (snd hb)"
  by (simp add: SendDownlinkFrame_def commandRequest_def Let_def log_def
      split: option.splits sum.splits exchange.splits)

lemma eventLoop_one_subscribe:
  "subscribeEventChan (snd (eventLoop c b [r])) = subscribeEventChan b"
  by (cases r)
    (auto simp add: log_def handled_def handleUplinkFrame_def handleGatewayStats_def Let_def
      split: sum.splits option.splits)

lemma run_subscribe:
  "subscribeEventChan (snd (snd (run c hb ss))) = subscribeEventChan (snd hb)"
proof (induction ss arbitrary: hb)
  case Nil
  show ?case by simp
next
  case (Cons s ss)
  show ?case
  proof (cases s)
    case (Call_SendDownlinkFrame x pl)
    obtain out hb1 where r: "SendDownlinkFrame c x pl hb = (out, hb1)"
      by (cases "SendDownlinkFrame c x pl hb")
    have "subscribeEventChan (snd hb1) = subscribeEventChan (snd hb)"
      using SendDownlinkFrame_subscribe [of c x pl hb] by (simp add: r)
    then show ?thesis
      using Cons.IH [of hb1] by (cases out) (simp_all add: Call_SendDownlinkFrame r)
  next
    case Call_Close
    then show ?thesis
      using Cons.IH [of "(fst hb, snd (Close (snd hb)))"] by (simp add: Close_def)
  next
    case Call_ApplyConfiguration
    then show ?thesis using Cons.IH [of hb] by (simp add: ApplyConfiguration_def)
  next
    case Call_RawPacketForwarderCommand
    then show ?thesis using Cons.IH [of hb] by (simp add: RawPacketForwarderCommand_def)
  next
    case (Loop_Recv r)
    obtain l b1 where e: "eventLoop c (snd hb) [r] = (l, b1)"
      by (cases "eventLoop c (snd hb) [r]")
    have "subscribeEventChan b1 = subscribeEventChan (snd hb)"
      using eventLoop_one_subscribe [of c "snd hb" r] by (simp add: e)
    then show ?thesis
      using Cons.IH [of "(fst hb, b1)"] by (cases l) (simp_all add: Loop_Recv e)
  qed
qed

lemma NewBackend_subscribe:
  "NewBackend c env conf = Return (Inr b) \<Longrightarrow>
   \<exists>reply. gateway_id_exchange env = Recv_reply reply
     \<and> subscribeEventChan b = [\<lparr>Subscribe = True, GatewayID = copy zero_EUI64 reply\<rparr>]"
  by (auto simp add: NewBackend_def getGatewayID_def commandRequest_def log_def Let_def
      split: option.splits exchange.splits)

text \<open>
  Claim C8. When \<^verbatim>\<open>NewBackend\<close> returns a backend, the identifier query was answered,
  and the values sent on the subscribe channel are exactly one event, with
  \<^verbatim>\<open>Subscribe\<close> true and the identifier copied from that answer; after any sequence of
  method calls (\<^verbatim>\<open>SendDownlinkFrame\<close>, \<^verbatim>\<open>Close\<close>, \<^verbatim>\<open>ApplyConfiguration\<close>,
  \<^verbatim>\<open>RawPacketForwarderCommand\<close>) and loop iterations, with any codec and any socket
  behaviour, they are still exactly that one event.
\<close>

theorem one_subscribe_event:
  "NewBackend c env conf = Return (Inr b) \<Longrightarrow>
   (\<exists>reply. gateway_id_exchange env = Recv_reply reply
      \<and> subscribeEventChan b = [\<lparr>Subscribe = True, GatewayID = copy zero_EUI64 reply\<rparr>]
      \<and> subscribeEventChan (snd (snd (run c (h, b) ss))) =
          [\<lparr>Subscribe = True, GatewayID = copy zero_EUI64 reply\<rparr>])
   \<and> length (subscribeEventChan (snd (snd (run c (h, b) ss)))) = 1"
  using NewBackend_subscribe [of c env conf b] run_subscribe [of c "(h, b)" ss] by auto

text \<open>A backend that sends a downlink, receives an uplink and statistics, is closed and
  then fails to receive.\<close>

theorem one_subscribe_event_witness:
  "NewBackend demo_codec (demo_startup (Recv_reply ''gateway1'')) (demo_conf True) =
     Return (Inr (demo_backend True))
   \<and> subscribeEventChan (snd (snd (run demo_codec (demo_heap 125, demo_backend True)
        [Call_SendDownlinkFrame (Recv_reply ''ack'') demo_frame,
         Loop_Recv (Inr [''up'', ''crc ok'']), Loop_Recv (Inr [''stats'', ''stats'']),
         Call_Close, Loop_Recv (Inl (New ''closed''))]))) =
       [\<lparr>Subscribe = True, GatewayID = ''gateway1''\<rparr>]
   \<and> fst (run demo_codec (demo_heap 125, demo_backend True)
        [Call_SendDownlinkFrame (Recv_reply ''ack'') demo_frame,
         Loop_Recv (Inr [''up'', ''crc ok'']), Loop_Recv (Inr [''stats'', ''stats'']),
         Call_Close, Loop_Recv (Inl (New ''closed''))]) = False"
proof -
  have x: "gateway_id_exchange (demo_startup (Recv_reply ''gateway1'')) = Recv_reply ''gateway1''"
    by (simp add: demo_startup_def)
  have f: "fst (run demo_codec (demo_heap 125, demo_backend True)
        [Call_SendDownlinkFrame (Recv_reply ''ack'') demo_frame,
         Loop_Recv (Inr [''up'', ''crc ok'']), Loop_Recv (Inr [''stats'', ''stats'']),
         Call_Close, Loop_Recv (Inl (New ''closed''))]) = False"
    by (simp add: demo_defs send_defs Let_def handled_def handleUplinkFrame_def
        handleGatewayStats_def Close_def)
  show ?thesis
    using one_subscribe_event [OF NewBackend_demo, of True "demo_heap 125"
        "[Call_SendDownlinkFrame (Recv_reply ''ack'') demo_frame,
          Loop_Recv (Inr [''up'', ''crc ok'']), Loop_Recv (Inr [''stats'', ''stats'']),
          Call_Close, Loop_Recv (Inl (New ''closed''))]"] NewBackend_demo [of True] x f
    by (simp add: copy_gateway1)
qed

end
